theory Spec2Isabelle
  imports Complex_Main "HOL-Library.Log_Nat"
begin

section \<open>Python values\<close>

text \<open>
  The exceptions the modelled functions can raise.  \<open>KeyError k\<close> is a failed dict
  subscript \<open>d[k]\<close>, \<open>ValueError v\<close> a failed conversion \<open>int(v)\<close>, \<open>float(v)\<close> or a
  body that is not JSON, \<open>Exception n\<close> the \<open>raise Exception(res.status_code)\<close> of
  \<open>HttpApi.get\<close>; \<open>ConnectionError\<close> and \<open>TooManyRedirects\<close> are raised by
  \<open>requests.get\<close>, for a request that got no response and for a chain of more than
  30 redirects.
\<close>

datatype py_error =
  KeyError string | ValueError string | Exception int | ConnectionError | TooManyRedirects

text \<open>
  A Python \<open>float\<close>.  \<open>Fin x\<close> is a finite float, identified with the real number it
  denotes (so \<open>-0.0\<close> is \<open>Fin 0\<close>).  \<open>float(str)\<close> below rounds as CPython does.  The
  clock readings are given, and the sums and differences of \<open>fadd\<close> and \<open>fsub\<close> are
  exact on finite floats: the rounding of \<open>+\<close> and \<open>-\<close> is not modelled.  On the
  infinities and NaN they follow IEEE 754.
\<close>

datatype pyfloat = Fin real | PInf | NInf | NaN

fun fneg :: "pyfloat \<Rightarrow> pyfloat" where
  "fneg (Fin x) = Fin (- x)"
| "fneg PInf = NInf"
| "fneg NInf = PInf"
| "fneg NaN = NaN"

fun fadd :: "pyfloat \<Rightarrow> pyfloat \<Rightarrow> pyfloat" where
  "fadd (Fin x) (Fin y) = Fin (x + y)"
| "fadd NaN _ = NaN"
| "fadd _ NaN = NaN"
| "fadd PInf NInf = NaN"
| "fadd NInf PInf = NaN"
| "fadd PInf _ = PInf"
| "fadd _ PInf = PInf"
| "fadd NInf _ = NInf"
| "fadd _ NInf = NInf"

definition fsub :: "pyfloat \<Rightarrow> pyfloat \<Rightarrow> pyfloat" where
  "fsub a b = fadd a (fneg b)"

subsection \<open>The conversions \<open>int(str)\<close> and \<open>float(str)\<close>\<close>

text \<open>
  A \<open>char\<close> is a code point below 256; strings with higher code points are not
  modelled.  Both builtins first replace the code points from 127 on: a whitespace one
  (below 256 these are U+0085 and U+00A0) by a space, a decimal digit by its ASCII
  digit (there is none below 256), any other by \<open>?\<close>.  Then they strip the ASCII
  whitespace (9 to 13, and 32) from both ends, take an optional sign, and accept
  single underscores between digits.
\<close>

definition py_isspace :: "char \<Rightarrow> bool" where
  "py_isspace c = (let n = (of_char c :: nat) in (9 \<le> n \<and> n \<le> 13) \<or> n = 32)"

definition py_to_ascii :: "char \<Rightarrow> char" where
  "py_to_ascii c =
     (let n = (of_char c :: nat)
      in if n < 127 then c
         else if n = 133 \<or> n = 160 then CHR '' ''
         else CHR ''?'')"

definition py_isdigit :: "char \<Rightarrow> bool" where
  "py_isdigit c = (let n = (of_char c :: nat) in 48 \<le> n \<and> n \<le> 57)"

definition py_lower :: "char \<Rightarrow> char" where
  "py_lower c = (let n = (of_char c :: nat) in if 65 \<le> n \<and> n \<le> 90 then char_of (n + 32) else c)"

definition py_strip :: "string \<Rightarrow> string" where
  "py_strip s = rev (dropWhile py_isspace (rev (dropWhile py_isspace (map py_to_ascii s))))"

text \<open>
  \<open>digitpart s\<close> reads the longest prefix \<open>digit (["_"] digit)*\<close> of \<open>s\<close> and returns its
  digits (underscores dropped) with the unread rest; no digit read is \<open>([], s)\<close>.
\<close>

function digitpart :: "string \<Rightarrow> string \<times> string" where
  "digitpart [] = ([], [])"
| "digitpart (c # cs) =
     (if \<not> py_isdigit c then ([], c # cs)
      else let cs' = (case cs of
                        u # d # _ \<Rightarrow> if u = CHR ''_'' \<and> py_isdigit d then tl cs else cs
                      | _ \<Rightarrow> cs);
               (ds, r) = digitpart cs'
           in (c # ds, r))"
  by pat_completeness auto
termination
  by (relation "measure length") (auto split: list.splits)

definition digits_value :: "string \<Rightarrow> int" where
  "digits_value ds = foldl (\<lambda>n c. 10 * n + (of_char c - 48)) 0 ds"

definition split_sign :: "string \<Rightarrow> bool \<times> string" where
  "split_sign s =
     (case s of
        [] \<Rightarrow> (False, s)
      | c # cs \<Rightarrow> if c = CHR ''-'' then (True, cs)
                 else if c = CHR ''+'' then (False, cs)
                 else (False, s))"

definition py_int :: "string \<Rightarrow> int option" where
  "py_int s =
     (let (neg, body) = split_sign (py_strip s);
          (ds, r) = digitpart body
      in if ds = [] \<or> r \<noteq> [] then None
         else Some (if neg then - digits_value ds else digits_value ds))"

text \<open>
  An unsigned decimal literal: \<open>digits [. [digits]] | . digits\<close>, then an optional
  exponent \<open>(e|E) [sign] digits\<close>.  \<open>decimal\<close> returns \<open>(m, sc)\<close> for the literal of
  value \<open>m * 10 ^ sc\<close>.
\<close>

definition exponent :: "string \<Rightarrow> int option" where
  "exponent s =
     (case s of
        [] \<Rightarrow> Some 0
      | c # cs \<Rightarrow>
          if c = CHR ''e'' \<or> c = CHR ''E'' then
            (let (neg, body) = split_sign cs;
                 (es, r) = digitpart body
             in if es = [] \<or> r \<noteq> [] then None
                else Some (if neg then - digits_value es else digits_value es))
          else None)"

definition decimal :: "string \<Rightarrow> (int \<times> int) option" where
  "decimal s =
     (let (ip, r1) = digitpart s;
          (fp, r2) = (case r1 of
                        [] \<Rightarrow> ([], r1)
                      | c # cs \<Rightarrow> if c = CHR ''.'' then digitpart cs else ([], r1))
      in if ip = [] \<and> fp = [] then None
         else (case exponent r2 of
                 None \<Rightarrow> None
               | Some e \<Rightarrow> Some (digits_value (ip @ fp), e - int (length fp))))"

text \<open>
  \<open>round_half_even num den\<close> is the integer nearest to \<open>num / den\<close>, the even one of
  two equally near.
\<close>

definition round_half_even :: "int \<Rightarrow> int \<Rightarrow> int" where
  "round_half_even num den =
     (let n = num div den; r = num mod den
      in if 2 * r < den then n
         else if den < 2 * r then n + 1
         else if even n then n else n + 1)"

text \<open>
  \<open>binary64 p q\<close> is the double nearest to \<open>p / q\<close> for positive \<open>p\<close> and \<open>q\<close>, as
  CPython's correctly rounded conversion gives it: \<open>e\<close> is the binary exponent of
  \<open>p / q\<close>, the result is a multiple \<open>n * 2 ^ k\<close> of the spacing of the doubles there
  (that of the subnormals below \<open>2 ^ - 1022\<close>), and a result of \<open>2 ^ 1024\<close> or more is
  \<open>inf\<close>.
\<close>

definition binary64 :: "int \<Rightarrow> int \<Rightarrow> pyfloat" where
  "binary64 p q =
     (let d = bitlen p - bitlen q;
          below = (if 0 \<le> d then p < q * 2 ^ nat d else p * 2 ^ nat (- d) < q);
          e = (if below then d - 1 else d);
          k = max e (- 1022) - 52;
          n = (if 0 \<le> k then round_half_even p (q * 2 ^ nat k)
               else round_half_even (p * 2 ^ nat (- k)) q)
      in if 971 < k \<or> (k = 971 \<and> 2 ^ 53 \<le> n) then PInf
         else Fin (if 0 \<le> k then real_of_int n * 2 ^ nat k
                   else real_of_int n / 2 ^ nat (- k)))"

definition py_float :: "string \<Rightarrow> pyfloat option" where
  "py_float s =
     (let (neg, body) = split_sign (py_strip s);
          w = map py_lower body
      in if w = ''inf'' \<or> w = ''infinity'' then Some (if neg then NInf else PInf)
         else if w = ''nan'' then Some NaN
         else (case decimal body of
                 None \<Rightarrow> None
               | Some (m, sc) \<Rightarrow>
                   let x = (if m = 0 then Fin 0
                            else if 0 \<le> sc then binary64 (m * 10 ^ nat sc) 1
                            else binary64 m (10 ^ nat (- sc)))
                   in Some (if neg then fneg x else x)))"

subsection \<open>Headers\<close>

text \<open>
  A response's header dict.  \<open>int_item header k\<close> is \<open>int(header[k])\<close> and
  \<open>float_item header k\<close> is \<open>float(header[k])\<close>: the subscript raises \<open>KeyError\<close> on a
  missing key, the conversion \<open>ValueError\<close> on a malformed value.
\<close>

type_synonym headers = "string \<rightharpoonup> string"

definition int_item :: "headers \<Rightarrow> string \<Rightarrow> py_error + int" where
  "int_item header k =
     (case header k of
        None \<Rightarrow> Inl (KeyError k)
      | Some v \<Rightarrow> (case py_int v of None \<Rightarrow> Inl (ValueError v) | Some i \<Rightarrow> Inr i))"

definition float_item :: "headers \<Rightarrow> string \<Rightarrow> py_error + pyfloat" where
  "float_item header k =
     (case header k of
        None \<Rightarrow> Inl (KeyError k)
      | Some v \<Rightarrow> (case py_float v of None \<Rightarrow> Inl (ValueError v) | Some x \<Rightarrow> Inr x))"

section \<open>The rate limiter (\<open>pincer/core/ratelimiter.py\<close>)\<close>

record Bucket =
  limit :: int
  remaining :: int
  reset :: pyfloat
  reset_after :: pyfloat
  time_cached :: pyfloat

text \<open>
  \<open>HttpCallable\<close> is declared in \<open>pincer/core/http.py\<close>; the rate limiter uses it only
  as a component of a dict key, so it is the type parameter \<open>'m\<close>.
\<close>

record 'm RateLimiter =
  bucket_map :: "(string \<times> 'm) \<rightharpoonup> string"
  buckets :: "string \<rightharpoonup> Bucket"

definition RateLimiter_init :: "'m RateLimiter" where
  "RateLimiter_init = \<lparr>bucket_map = Map.empty, buckets = Map.empty\<rparr>"

text \<open>
  The call \<open>Bucket(limit=int(header[...]), ..., time_cached=time())\<close>: the arguments
  are evaluated left to right and the first failure is raised.  \<open>now\<close> is what
  \<open>time()\<close> returns.
\<close>

definition new_Bucket :: "headers \<Rightarrow> pyfloat \<Rightarrow> py_error + Bucket" where
  "new_Bucket header now =
     (case int_item header ''X-RateLimit-Limit'' of
        Inl e \<Rightarrow> Inl e
      | Inr l \<Rightarrow>
     (case int_item header ''X-RateLimit-Remaining'' of
        Inl e \<Rightarrow> Inl e
      | Inr r \<Rightarrow>
     (case float_item header ''X-RateLimit-Reset'' of
        Inl e \<Rightarrow> Inl e
      | Inr rs \<Rightarrow>
     (case float_item header ''X-RateLimit-Reset-After'' of
        Inl e \<Rightarrow> Inl e
      | Inr ra \<Rightarrow>
          Inr \<lparr>limit = l, remaining = r, reset = rs, reset_after = ra,
               time_cached = now\<rparr>))))"

text \<open>
  \<open>save_response_bucket\<close> returns how the call ended (\<open>Inr ()\<close>: it returned,
  \<open>Inl e\<close>: it raised \<open>e\<close>) and the rate limiter as the call left it.  The walrus test
  is false for a missing key and for the empty string.  The assignment to
  \<open>bucket_map\<close> comes before the \<open>Bucket\<close> is built, so it stays when building raises.
\<close>

definition save_response_bucket ::
  "'m RateLimiter \<Rightarrow> string \<Rightarrow> 'm \<Rightarrow> headers \<Rightarrow> pyfloat \<Rightarrow> (py_error + unit) \<times> 'm RateLimiter"
where
  "save_response_bucket self endpoint method header now =
     (case header ''X-RateLimit-Bucket'' of
        None \<Rightarrow> (Inr (), self)
      | Some bucket_id \<Rightarrow>
          if bucket_id = [] then (Inr (), self)
          else
            let self1 = self\<lparr>bucket_map := (bucket_map self)((endpoint, method) \<mapsto> bucket_id)\<rparr>
            in (case new_Bucket header now of
                  Inl e \<Rightarrow> (Inl e, self1)
                | Inr b \<Rightarrow> (Inr (), self1\<lparr>buckets := (buckets self1)(bucket_id \<mapsto> b)\<rparr>)))"

text \<open>
  How \<open>wait_until_not_ratelimited\<close> ended: it returned without awaiting anything, or
  it awaited \<open>sleep(sleep_time)\<close> and then returned.
\<close>

datatype waited = Returned | Slept pyfloat

text \<open>
  \<open>cur_time\<close> is what \<open>time()\<close> returns.  The function assigns nothing to \<open>self\<close>.  The
  subscript \<open>self.buckets[bucket_id]\<close> raises \<open>KeyError\<close> on a missing id.
\<close>

definition wait_until_not_ratelimited ::
  "'m RateLimiter \<Rightarrow> string \<Rightarrow> 'm \<Rightarrow> pyfloat \<Rightarrow> py_error + waited"
where
  "wait_until_not_ratelimited self endpoint method cur_time =
     (case bucket_map self (endpoint, method) of
        None \<Rightarrow> Inr Returned
      | Some bucket_id \<Rightarrow>
          (case buckets self bucket_id of
             None \<Rightarrow> Inl (KeyError bucket_id)
           | Some bucket \<Rightarrow>
               if remaining bucket = 0
               then Inr (Slept (fadd (fsub cur_time (time_cached bucket)) (reset_after bucket)))
               else Inr Returned))"

text \<open>
  \<open>asyncio.sleep(delay)\<close> yields once and returns at once when \<open>delay \<le> 0\<close>, and
  otherwise suspends the caller for \<open>delay\<close> seconds.  \<open>suspended_for\<close> is the time the
  caller is held back; it is \<open>None\<close> for the sleeps that never return normally
  (\<open>inf\<close>, NaN).
\<close>

definition suspended_for :: "waited \<Rightarrow> real option" where
  "suspended_for w =
     (case w of
        Returned \<Rightarrow> Some 0
      | Slept (Fin d) \<Rightarrow> Some (max 0 d)
      | Slept NInf \<Rightarrow> Some 0
      | Slept PInf \<Rightarrow> None
      | Slept NaN \<Rightarrow> None)"

subsection \<open>Sequences of calls\<close>

text \<open>
  A caller's calls on one rate limiter, each with the clock reading it gets.  An
  exception reaches the caller and the rate limiter lives on as the call left it.
\<close>

datatype 'm call =
  Observe string 'm headers pyfloat
| Acquire string 'm pyfloat

fun step :: "'m RateLimiter \<Rightarrow> 'm call \<Rightarrow> 'm RateLimiter" where
  "step self (Observe endpoint method header now) =
     snd (save_response_bucket self endpoint method header now)"
| "step self (Acquire endpoint method cur_time) = self"

definition run :: "'m RateLimiter \<Rightarrow> 'm call list \<Rightarrow> 'm RateLimiter" where
  "run self cs = foldl step self cs"

section \<open>The HTTP client (\<open>pyscord/core/http/__init__.py\<close>)\<close>










section \<open>What the specification states\<close>

text \<open>
  The wait the specification gives for an exhausted bucket:
  \<open>max(0, cached_at + reset_after - now)\<close>.
\<close>

definition claimed_wait :: "real \<Rightarrow> real \<Rightarrow> real \<Rightarrow> real" where
  "claimed_wait cached_at reset_after' now = max 0 (cached_at + reset_after' - now)"

text \<open>
  A call is \<open>in_bounds\<close> when the response it reports has \<open>0 \<le> Remaining \<le> Limit\<close>
  wherever both headers are integers.
\<close>

fun in_bounds :: "'m call \<Rightarrow> bool" where
  "in_bounds (Observe endpoint method header now) =
     (case (int_item header ''X-RateLimit-Limit'', int_item header ''X-RateLimit-Remaining'') of
        (Inr l, Inr r) \<Rightarrow> 0 \<le> r \<and> r \<le> l
      | _ \<Rightarrow> True)"
| "in_bounds (Acquire endpoint method cur_time) = True"

section \<open>Example responses\<close>

text \<open>The five rate-limit headers of a response, as the server writes them.\<close>

definition ratelimit_headers ::
  "string \<Rightarrow> string \<Rightarrow> string \<Rightarrow> string \<Rightarrow> string \<Rightarrow> headers"
where
  "ratelimit_headers b l r rs ra =
     map_of [(''X-RateLimit-Bucket'', b), (''X-RateLimit-Limit'', l),
             (''X-RateLimit-Remaining'', r), (''X-RateLimit-Reset'', rs),
             (''X-RateLimit-Reset-After'', ra)]"

section \<open>Properties of the rate limiter\<close>

lemma save_no_id:
  "header ''X-RateLimit-Bucket'' = None \<Longrightarrow>
   save_response_bucket self endpoint method header now = (Inr (), self)"
  by (simp add: save_response_bucket_def)

lemma save_with_id:
  "header ''X-RateLimit-Bucket'' = Some bucket_id \<Longrightarrow> bucket_id \<noteq> [] \<Longrightarrow>
   save_response_bucket self endpoint method header now =
     (case new_Bucket header now of
        Inl e \<Rightarrow>
          (Inl e, self\<lparr>bucket_map := (bucket_map self)((endpoint, method) \<mapsto> bucket_id)\<rparr>)
      | Inr b \<Rightarrow>
          (Inr (), self\<lparr>bucket_map := (bucket_map self)((endpoint, method) \<mapsto> bucket_id),
                        buckets := (buckets self)(bucket_id \<mapsto> b)\<rparr>))"
  by (simp add: save_response_bucket_def Let_def split: sum.splits)

lemma new_Bucket_Inr:
  "new_Bucket header now = Inr b \<longleftrightarrow>
   (\<exists>l r rs ra.
      int_item header ''X-RateLimit-Limit'' = Inr l \<and>
      int_item header ''X-RateLimit-Remaining'' = Inr r \<and>
      float_item header ''X-RateLimit-Reset'' = Inr rs \<and>
      float_item header ''X-RateLimit-Reset-After'' = Inr ra \<and>
      b = \<lparr>limit = l, remaining = r, reset = rs, reset_after = ra, time_cached = now\<rparr>)"
  by (auto simp: new_Bucket_def split: sum.splits)

lemma new_Bucket_Inl:
  "new_Bucket header t1 = Inl e \<longleftrightarrow> new_Bucket header t2 = Inl e"
  by (auto simp: new_Bucket_def split: sum.splits)

lemma step_in_bounds:
  assumes "\<And>i b. buckets self i = Some b \<Longrightarrow> 0 \<le> remaining b \<and> remaining b \<le> limit b"
    and "in_bounds c"
    and "buckets (step self c) i = Some b"
  shows "0 \<le> remaining b \<and> remaining b \<le> limit b"
proof (cases c)
  case (Observe e m h t)
  show ?thesis
  proof (cases "h ''X-RateLimit-Bucket''")
    case None
    with Observe assms(3) have "buckets self i = Some b" by (simp add: save_no_id)
    then show ?thesis by (rule assms(1))
  next
    case (Some bucket_id)
    show ?thesis
    proof (cases "bucket_id = []")
      case True
      with Some Observe assms(3) have "buckets self i = Some b"
        by (simp add: save_response_bucket_def)
      then show ?thesis by (rule assms(1))
    next
      case False
      show ?thesis
      proof (cases "new_Bucket h t")
        case (Inl e)
        with Some False Observe assms(3) have "buckets self i = Some b"
          by (simp add: save_with_id)
        then show ?thesis by (rule assms(1))
      next
        case (Inr nb)
        with Some False Observe assms(3)
        have "(if i = bucket_id then Some nb else buckets self i) = Some b"
          by (simp add: save_with_id)
        moreover have "0 \<le> remaining nb \<and> remaining nb \<le> limit nb"
          using Inr assms(2) Observe by (auto simp: new_Bucket_Inr)
        ultimately show ?thesis using assms(1) by (auto split: if_splits)
      qed
    qed
  qed
next
  case (Acquire e m t)
  with assms(3) have "buckets self i = Some b" by simp
  then show ?thesis by (rule assms(1))
qed

lemma run_in_bounds:
  assumes "list_all in_bounds cs"
    and "\<And>i b. buckets self i = Some b \<Longrightarrow> 0 \<le> remaining b \<and> remaining b \<le> limit b"
    and "buckets (run self cs) i = Some b"
  shows "0 \<le> remaining b \<and> remaining b \<le> limit b"
  using assms
proof (induction cs arbitrary: self i b)
  case Nil
  then show ?case by (simp add: run_def)
next
  case (Cons c cs)
  have inv: "\<And>i b. buckets (step self c) i = Some b \<Longrightarrow> 0 \<le> remaining b \<and> remaining b \<le> limit b"
    using step_in_bounds [of self c] Cons.prems(1,2) by simp
  from Cons.prems(3) have "buckets (run (step self c) cs) i = Some b"
    by (simp add: run_def)
  with Cons.IH [of "step self c" i b] Cons.prems(1) inv show ?case by simp
qed


text \<open>
  C7.  When the response's headers have no \<open>X-RateLimit-Bucket\<close> entry,
  \<open>save_response_bucket\<close> returns normally and leaves the rate limiter exactly as it
  was: the route-to-bucket mapping and every stored bucket are unchanged.  A later
  \<open>wait_until_not_ratelimited\<close> for any route with no bucket mapping returns without
  awaiting anything.
\<close>

theorem observe_without_bucket_id_is_noop:
  assumes "header ''X-RateLimit-Bucket'' = None"
  shows "save_response_bucket self endpoint method header now = (Inr (), self) \<and>
         (bucket_map self (e, m) = None \<longrightarrow>
            wait_until_not_ratelimited
              (snd (save_response_bucket self endpoint method header now)) e m cur_time
            = Inr Returned)"
  using assms by (simp add: save_no_id wait_until_not_ratelimited_def)

theorem observe_without_bucket_id_is_noop_witness:
  "[''Content-Type'' \<mapsto> ''application/json''] ''X-RateLimit-Bucket'' = None \<and>
   save_response_bucket (RateLimiter_init :: string RateLimiter) ''/gateway'' ''GET''
       [''Content-Type'' \<mapsto> ''application/json''] (Fin 0) = (Inr (), RateLimiter_init) \<and>
   bucket_map (RateLimiter_init :: string RateLimiter) (''/gateway'', ''GET'') = None \<and>
   wait_until_not_ratelimited
     (snd (save_response_bucket (RateLimiter_init :: string RateLimiter) ''/gateway'' ''GET''
        [''Content-Type'' \<mapsto> ''application/json''] (Fin 0))) ''/gateway'' ''GET'' (Fin 1)
     = Inr Returned"
proof -
  have h: "[''Content-Type'' \<mapsto> ''application/json''] ''X-RateLimit-Bucket'' = None"
    by simp
  have m: "bucket_map (RateLimiter_init :: string RateLimiter) (''/gateway'', ''GET'') = None"
    by (simp add: RateLimiter_init_def)
  from observe_without_bucket_id_is_noop
      [of "[''Content-Type'' \<mapsto> ''application/json'']"
          "RateLimiter_init :: string RateLimiter" "''/gateway''" "''GET''" "Fin 0"
          "''/gateway''" "''GET''" "Fin 1"] h m
  show ?thesis by blast
qed

text \<open>
  C4.  When the route is mapped to a bucket whose stored record has
  \<open>remaining > 0\<close>, \<open>wait_until_not_ratelimited\<close> returns without awaiting anything.
\<close>

theorem acquire_with_remaining_returns:
  assumes "bucket_map self (endpoint, method) = Some bucket_id"
    and "buckets self bucket_id = Some bucket"
    and "0 < remaining bucket"
  shows "wait_until_not_ratelimited self endpoint method cur_time = Inr Returned"
  using assms by (simp add: wait_until_not_ratelimited_def)

theorem acquire_with_remaining_returns_witness:
  "bucket_map
     (snd (save_response_bucket (RateLimiter_init :: string RateLimiter) ''/channels'' ''GET''
             (ratelimit_headers ''b1'' ''5'' ''3'' ''2.0'' ''2.0'') (Fin 0)))
     (''/channels'', ''GET'') = Some ''b1'' \<and>
   buckets
     (snd (save_response_bucket (RateLimiter_init :: string RateLimiter) ''/channels'' ''GET''
             (ratelimit_headers ''b1'' ''5'' ''3'' ''2.0'' ''2.0'') (Fin 0))) ''b1''
     = Some \<lparr>limit = 5, remaining = 3, reset = Fin 2, reset_after = Fin 2,
              time_cached = Fin 0\<rparr> \<and>
   0 < remaining \<lparr>limit = 5, remaining = 3, reset = Fin 2, reset_after = Fin 2,
                   time_cached = Fin 0\<rparr> \<and>
   wait_until_not_ratelimited
     (snd (save_response_bucket (RateLimiter_init :: string RateLimiter) ''/channels'' ''GET''
             (ratelimit_headers ''b1'' ''5'' ''3'' ''2.0'' ''2.0'') (Fin 0)))
     ''/channels'' ''GET'' (Fin 1) = Inr Returned"
proof -
  let ?s = "snd (save_response_bucket (RateLimiter_init :: string RateLimiter)
                   ''/channels'' ''GET''
                   (ratelimit_headers ''b1'' ''5'' ''3'' ''2.0'' ''2.0'') (Fin 0))"
  let ?b = "\<lparr>limit = 5, remaining = 3, reset = Fin 2, reset_after = Fin 2,
             time_cached = Fin 0\<rparr>"
  have a: "bucket_map ?s (''/channels'', ''GET'') = Some ''b1''" by code_simp
  have b: "buckets ?s ''b1'' = Some ?b" by code_simp
  have c: "0 < remaining ?b" by simp
  from acquire_with_remaining_returns [OF a b c, of "Fin 1"] a b c
  show ?thesis by blast
qed

text \<open>
  C5 (as amended).  Nothing checks the integers the server sends: the stored \<open>limit\<close>
  and \<open>remaining\<close> are the parsed \<open>X-RateLimit-Limit\<close> and \<open>X-RateLimit-Remaining\<close>
  of the last response.  So \<open>0 \<le> remaining \<le> limit\<close> holds for every stored bucket
  in every state reached from the empty rate limiter by calls whose responses
  themselves satisfy \<open>0 \<le> Remaining \<le> Limit\<close>.
\<close>

theorem stored_remaining_within_limit:
  assumes "list_all in_bounds cs"
    and "buckets (run RateLimiter_init cs) bucket_id = Some b"
  shows "0 \<le> remaining b \<and> remaining b \<le> limit b"
  using run_in_bounds [OF assms(1) _ assms(2)] by (simp add: RateLimiter_init_def)

theorem stored_remaining_within_limit_witness:
  "list_all in_bounds
     [Observe ''/channels'' ''GET'' (ratelimit_headers ''b1'' ''5'' ''3'' ''2.0'' ''2.0'') (Fin 0),
      Acquire ''/channels'' ''GET'' (Fin 1)] \<and>
   buckets
     (run RateLimiter_init
        [Observe ''/channels'' ''GET'' (ratelimit_headers ''b1'' ''5'' ''3'' ''2.0'' ''2.0'') (Fin 0),
         Acquire ''/channels'' ''GET'' (Fin 1)]) ''b1''
     = Some \<lparr>limit = 5, remaining = 3, reset = Fin 2, reset_after = Fin 2,
              time_cached = Fin 0\<rparr> \<and>
   0 \<le> remaining \<lparr>limit = 5, remaining = 3, reset = Fin 2, reset_after = Fin 2,
                    time_cached = Fin 0\<rparr> \<and>
   remaining \<lparr>limit = 5, remaining = 3, reset = Fin 2, reset_after = Fin 2,
               time_cached = Fin 0\<rparr>
     \<le> limit \<lparr>limit = 5, remaining = 3, reset = Fin 2, reset_after = Fin 2,
                time_cached = Fin 0\<rparr>"
proof -
  let ?cs = "[Observe ''/channels'' ''GET'' (ratelimit_headers ''b1'' ''5'' ''3'' ''2.0'' ''2.0'') (Fin 0),
      Acquire ''/channels'' ''GET'' (Fin 1)]"
  have a: "list_all in_bounds ?cs" by code_simp
  have b: "buckets (run RateLimiter_init ?cs) ''b1''
     = Some \<lparr>limit = 5, remaining = 3, reset = Fin 2, reset_after = Fin 2,
              time_cached = Fin 0\<rparr>" by code_simp
  from stored_remaining_within_limit [OF a b] a b show ?thesis by blast
qed

text \<open>
  C5 as stated fails: a response with \<open>Remaining: 7\<close>, \<open>Limit: 5\<close> stores a bucket
  with \<open>remaining > limit\<close>, and one with \<open>Remaining: -1\<close> a bucket with
  \<open>remaining < 0\<close>.
\<close>

theorem stored_remaining_out_of_range:
  "buckets
     (run RateLimiter_init
        [Observe ''/channels'' ''GET'' (ratelimit_headers ''b1'' ''5'' ''7'' ''2.0'' ''2.0'') (Fin 0),
         Observe ''/users'' ''GET'' (ratelimit_headers ''b2'' ''5'' ''-1'' ''2.0'' ''2.0'') (Fin 0),
         Acquire ''/channels'' ''GET'' (Fin 1)]) ''b1''
     = Some \<lparr>limit = 5, remaining = 7, reset = Fin 2, reset_after = Fin 2,
              time_cached = Fin 0\<rparr> \<and>
   \<not> remaining \<lparr>limit = 5, remaining = 7, reset = Fin 2, reset_after = Fin 2,
                 time_cached = Fin 0\<rparr>
       \<le> limit \<lparr>limit = 5, remaining = 7, reset = Fin 2, reset_after = Fin 2,
                  time_cached = Fin 0\<rparr> \<and>
   buckets
     (run RateLimiter_init
        [Observe ''/channels'' ''GET'' (ratelimit_headers ''b1'' ''5'' ''7'' ''2.0'' ''2.0'') (Fin 0),
         Observe ''/users'' ''GET'' (ratelimit_headers ''b2'' ''5'' ''-1'' ''2.0'' ''2.0'') (Fin 0),
         Acquire ''/channels'' ''GET'' (Fin 1)]) ''b2''
     = Some \<lparr>limit = 5, remaining = - 1, reset = Fin 2, reset_after = Fin 2,
              time_cached = Fin 0\<rparr> \<and>
   \<not> 0 \<le> remaining \<lparr>limit = 5, remaining = - 1, reset = Fin 2, reset_after = Fin 2,
                      time_cached = Fin 0\<rparr>"
proof -
  let ?cs = "[Observe ''/channels'' ''GET'' (ratelimit_headers ''b1'' ''5'' ''7'' ''2.0'' ''2.0'') (Fin 0),
         Observe ''/users'' ''GET'' (ratelimit_headers ''b2'' ''5'' ''-1'' ''2.0'' ''2.0'') (Fin 0),
         Acquire ''/channels'' ''GET'' (Fin 1)]"
  have a: "buckets (run RateLimiter_init ?cs) ''b1''
     = Some \<lparr>limit = 5, remaining = 7, reset = Fin 2, reset_after = Fin 2,
              time_cached = Fin 0\<rparr>" by code_simp
  have b: "buckets (run RateLimiter_init ?cs) ''b2''
     = Some \<lparr>limit = 5, remaining = - 1, reset = Fin 2, reset_after = Fin 2,
              time_cached = Fin 0\<rparr>" by code_simp
  from a b show ?thesis by simp
qed

text \<open>
  C3 (as amended).  Two successive \<open>save_response_bucket\<close> calls for one route with the
  same headers, carrying a bucket id: the second call ends as the first did, leaves the
  route-to-bucket mapping as the first left it, and leaves \<open>limit\<close>, \<open>remaining\<close>,
  \<open>reset\<close> and \<open>reset_after\<close> of the stored bucket as the first left them.  Only
  \<open>time_cached\<close> is written anew, with the second call's clock reading; when both
  calls read the same clock value the whole rate limiter is unchanged.
\<close>

theorem observe_twice_same_headers:
  assumes "header ''X-RateLimit-Bucket'' = Some bucket_id"
  shows
    "let (r1, s1) = save_response_bucket self endpoint method header t1;
         (r2, s2) = save_response_bucket s1 endpoint method header t2
     in r2 = r1 \<and>
        bucket_map s2 = bucket_map s1 \<and>
        map_option (\<lambda>b. (limit b, remaining b, reset b, reset_after b)) (buckets s2 bucket_id)
          = map_option (\<lambda>b. (limit b, remaining b, reset b, reset_after b)) (buckets s1 bucket_id) \<and>
        (bucket_id \<noteq> [] \<and> r2 = Inr () \<longrightarrow>
           map_option time_cached (buckets s1 bucket_id) = Some t1 \<and>
           map_option time_cached (buckets s2 bucket_id) = Some t2) \<and>
        (t2 = t1 \<longrightarrow> s2 = s1)"
proof (cases "bucket_id = []")
  case True
  with assms show ?thesis by (simp add: save_response_bucket_def)
next
  case False
  show ?thesis
  proof (cases "new_Bucket header t1")
    case (Inl e)
    then have "new_Bucket header t2 = Inl e" by (simp add: new_Bucket_Inl [of header t1 e t2])
    with Inl assms False show ?thesis by (simp add: save_with_id)
  next
    case (Inr b1)
    then obtain l r rs ra where
      b1: "b1 = \<lparr>limit = l, remaining = r, reset = rs, reset_after = ra, time_cached = t1\<rparr>"
      and 2: "new_Bucket header t2 =
                Inr \<lparr>limit = l, remaining = r, reset = rs, reset_after = ra, time_cached = t2\<rparr>"
      by (auto simp: new_Bucket_Inr)
    from Inr b1 2 assms False show ?thesis by (simp add: save_with_id)
  qed
qed


theorem observe_twice_same_headers_witness:
  "(ratelimit_headers ''b1'' ''5'' ''3'' ''2.0'' ''2.0'') ''X-RateLimit-Bucket'' = Some ''b1'' \<and>
   (let (r1, s1) = save_response_bucket (RateLimiter_init :: string RateLimiter)
                     ''/channels'' ''GET'' (ratelimit_headers ''b1'' ''5'' ''3'' ''2.0'' ''2.0'') (Fin 0);
        (r2, s2) = save_response_bucket s1 ''/channels'' ''GET'' (ratelimit_headers ''b1'' ''5'' ''3'' ''2.0'' ''2.0'') (Fin 1)
    in r2 = r1 \<and>
       bucket_map s2 = bucket_map s1 \<and>
       map_option (\<lambda>b. (limit b, remaining b, reset b, reset_after b)) (buckets s2 ''b1'')
         = map_option (\<lambda>b. (limit b, remaining b, reset b, reset_after b)) (buckets s1 ''b1'') \<and>
       (''b1'' \<noteq> [] \<and> r2 = Inr () \<longrightarrow>
          map_option time_cached (buckets s1 ''b1'') = Some (Fin 0) \<and>
          map_option time_cached (buckets s2 ''b1'') = Some (Fin 1)) \<and>
       (Fin 1 = Fin 0 \<longrightarrow> s2 = s1))"
proof -
  have h: "(ratelimit_headers ''b1'' ''5'' ''3'' ''2.0'' ''2.0'') ''X-RateLimit-Bucket'' = Some ''b1''"
    by code_simp
  from observe_twice_same_headers
      [of "ratelimit_headers ''b1'' ''5'' ''3'' ''2.0'' ''2.0''" "''b1''"
          "RateLimiter_init :: string RateLimiter" "''/channels''" "''GET''" "Fin 0" "Fin 1",
       OF h] h
  show ?thesis by blast
qed

text \<open>
  C3 as stated fails: the same headers observed at time 0 and again at time 1 leave
  two different records, since \<open>time_cached\<close> moves from 0 to 1.
\<close>

theorem observe_twice_changes_time_cached:
  "buckets (snd (save_response_bucket (RateLimiter_init :: string RateLimiter) ''/channels'' ''GET''
        (ratelimit_headers ''b1'' ''5'' ''3'' ''2.0'' ''2.0'') (Fin 0))) ''b1''
     = Some \<lparr>limit = 5, remaining = 3, reset = Fin 2, reset_after = Fin 2, time_cached = Fin 0\<rparr> \<and>
   buckets (snd (save_response_bucket (snd (save_response_bucket (RateLimiter_init :: string RateLimiter) ''/channels'' ''GET''
        (ratelimit_headers ''b1'' ''5'' ''3'' ''2.0'' ''2.0'') (Fin 0)))
        ''/channels'' ''GET'' (ratelimit_headers ''b1'' ''5'' ''3'' ''2.0'' ''2.0'') (Fin 1))) ''b1''
     = Some \<lparr>limit = 5, remaining = 3, reset = Fin 2, reset_after = Fin 2, time_cached = Fin 1\<rparr> \<and>
   buckets (snd (save_response_bucket (snd (save_response_bucket (RateLimiter_init :: string RateLimiter) ''/channels'' ''GET''
        (ratelimit_headers ''b1'' ''5'' ''3'' ''2.0'' ''2.0'') (Fin 0)))
        ''/channels'' ''GET'' (ratelimit_headers ''b1'' ''5'' ''3'' ''2.0'' ''2.0'') (Fin 1))) ''b1''
     \<noteq> buckets (snd (save_response_bucket (RateLimiter_init :: string RateLimiter) ''/channels'' ''GET''
        (ratelimit_headers ''b1'' ''5'' ''3'' ''2.0'' ''2.0'') (Fin 0))) ''b1''"
proof -
  have a: "buckets (snd (save_response_bucket (RateLimiter_init :: string RateLimiter) ''/channels'' ''GET''
        (ratelimit_headers ''b1'' ''5'' ''3'' ''2.0'' ''2.0'') (Fin 0))) ''b1''
     = Some \<lparr>limit = 5, remaining = 3, reset = Fin 2, reset_after = Fin 2, time_cached = Fin 0\<rparr>" by code_simp
  have b: "buckets (snd (save_response_bucket (snd (save_response_bucket (RateLimiter_init :: string RateLimiter) ''/channels'' ''GET''
        (ratelimit_headers ''b1'' ''5'' ''3'' ''2.0'' ''2.0'') (Fin 0)))
        ''/channels'' ''GET'' (ratelimit_headers ''b1'' ''5'' ''3'' ''2.0'' ''2.0'') (Fin 1))) ''b1''
     = Some \<lparr>limit = 5, remaining = 3, reset = Fin 2, reset_after = Fin 2, time_cached = Fin 1\<rparr>" by code_simp
  from a b show ?thesis by simp
qed


text \<open>
  C8 (as amended).  A \<open>save_response_bucket\<close> call whose headers carry a non-empty
  bucket id and that returns normally has read all four other rate-limit headers, and
  the bucket stored under that id afterwards is the one built from them and from the
  call's clock reading, whatever the rate limiter held before: nothing of the previous
  record survives, so the later of two such calls wins entirely.
\<close>

theorem observe_replaces_record:
  assumes "header ''X-RateLimit-Bucket'' = Some bucket_id"
    and "bucket_id \<noteq> []"
    and "fst (save_response_bucket self endpoint method header now) = Inr ()"
  shows "\<exists>l r rs ra.
           int_item header ''X-RateLimit-Limit'' = Inr l \<and>
           int_item header ''X-RateLimit-Remaining'' = Inr r \<and>
           float_item header ''X-RateLimit-Reset'' = Inr rs \<and>
           float_item header ''X-RateLimit-Reset-After'' = Inr ra \<and>
           buckets (snd (save_response_bucket self endpoint method header now)) bucket_id
             = Some \<lparr>limit = l, remaining = r, reset = rs, reset_after = ra,
                      time_cached = now\<rparr>"
proof (cases "new_Bucket header now")
  case (Inl e)
  with assms show ?thesis by (simp add: save_with_id)
next
  case (Inr b)
  then obtain l r rs ra where
    "int_item header ''X-RateLimit-Limit'' = Inr l"
    "int_item header ''X-RateLimit-Remaining'' = Inr r"
    "float_item header ''X-RateLimit-Reset'' = Inr rs"
    "float_item header ''X-RateLimit-Reset-After'' = Inr ra"
    "b = \<lparr>limit = l, remaining = r, reset = rs, reset_after = ra, time_cached = now\<rparr>"
    by (auto simp: new_Bucket_Inr)
  moreover from Inr assms(1,2)
  have "buckets (snd (save_response_bucket self endpoint method header now)) bucket_id = Some b"
    by (simp add: save_with_id)
  ultimately show ?thesis by simp
qed

theorem observe_replaces_record_witness:
  "(ratelimit_headers ''b1'' ''5'' ''0'' ''3.0'' ''2.0'') ''X-RateLimit-Bucket'' = Some ''b1'' \<and>
   ''b1'' \<noteq> [] \<and>
   fst (save_response_bucket (snd (save_response_bucket (RateLimiter_init :: string RateLimiter) ''/channels'' ''GET''
        (ratelimit_headers ''b1'' ''5'' ''3'' ''2.0'' ''2.0'') (Fin 0)))
          ''/users'' ''GET'' (ratelimit_headers ''b1'' ''5'' ''0'' ''3.0'' ''2.0'') (Fin 1)) = Inr () \<and>
   (\<exists>l r rs ra.
      int_item (ratelimit_headers ''b1'' ''5'' ''0'' ''3.0'' ''2.0'') ''X-RateLimit-Limit'' = Inr l \<and>
      int_item (ratelimit_headers ''b1'' ''5'' ''0'' ''3.0'' ''2.0'') ''X-RateLimit-Remaining'' = Inr r \<and>
      float_item (ratelimit_headers ''b1'' ''5'' ''0'' ''3.0'' ''2.0'') ''X-RateLimit-Reset'' = Inr rs \<and>
      float_item (ratelimit_headers ''b1'' ''5'' ''0'' ''3.0'' ''2.0'') ''X-RateLimit-Reset-After'' = Inr ra \<and>
      buckets (snd (save_response_bucket (snd (save_response_bucket (RateLimiter_init :: string RateLimiter) ''/channels'' ''GET''
        (ratelimit_headers ''b1'' ''5'' ''3'' ''2.0'' ''2.0'') (Fin 0)))
          ''/users'' ''GET'' (ratelimit_headers ''b1'' ''5'' ''0'' ''3.0'' ''2.0'') (Fin 1))) ''b1''
        = Some \<lparr>limit = l, remaining = r, reset = rs, reset_after = ra,
                 time_cached = Fin 1\<rparr>)"
proof -
  have a: "(ratelimit_headers ''b1'' ''5'' ''0'' ''3.0'' ''2.0'') ''X-RateLimit-Bucket'' = Some ''b1''" by code_simp
  have b: "''b1'' \<noteq> []" by simp
  have c: "fst (save_response_bucket (snd (save_response_bucket (RateLimiter_init :: string RateLimiter) ''/channels'' ''GET''
        (ratelimit_headers ''b1'' ''5'' ''3'' ''2.0'' ''2.0'') (Fin 0)))
          ''/users'' ''GET'' (ratelimit_headers ''b1'' ''5'' ''0'' ''3.0'' ''2.0'') (Fin 1)) = Inr ()" by code_simp
  from observe_replaces_record
      [of "ratelimit_headers ''b1'' ''5'' ''0'' ''3.0'' ''2.0''" "''b1''" _ "''/users''" "''GET''" "Fin 1", OF a b c] a b c
  show ?thesis by blast
qed

text \<open>
  C8 as stated fails: a response that carries the bucket id \<open>b1\<close> but no
  \<open>X-RateLimit-Limit\<close> makes the call raise \<open>KeyError\<close>, and the record stored for
  \<open>b1\<close> by the earlier response stays as it was.
\<close>

theorem failed_observe_keeps_old_record:
  "(map_of [(''X-RateLimit-Bucket'', ''b1''), (''X-RateLimit-Remaining'', ''0''),
                 (''X-RateLimit-Reset'', ''3.0''), (''X-RateLimit-Reset-After'', ''2.0'')]) ''X-RateLimit-Bucket'' = Some ''b1'' \<and>
   buckets (snd (save_response_bucket (RateLimiter_init :: string RateLimiter) ''/channels'' ''GET''
        (ratelimit_headers ''b1'' ''5'' ''3'' ''2.0'' ''2.0'') (Fin 0))) ''b1''
     = Some \<lparr>limit = 5, remaining = 3, reset = Fin 2, reset_after = Fin 2, time_cached = Fin 0\<rparr> \<and>
   fst (save_response_bucket (snd (save_response_bucket (RateLimiter_init :: string RateLimiter) ''/channels'' ''GET''
        (ratelimit_headers ''b1'' ''5'' ''3'' ''2.0'' ''2.0'') (Fin 0)))
          ''/channels'' ''GET''
          (map_of [(''X-RateLimit-Bucket'', ''b1''), (''X-RateLimit-Remaining'', ''0''),
                 (''X-RateLimit-Reset'', ''3.0''), (''X-RateLimit-Reset-After'', ''2.0'')]) (Fin 1))
     = Inl (KeyError ''X-RateLimit-Limit'') \<and>
   buckets (snd (save_response_bucket (snd (save_response_bucket (RateLimiter_init :: string RateLimiter) ''/channels'' ''GET''
        (ratelimit_headers ''b1'' ''5'' ''3'' ''2.0'' ''2.0'') (Fin 0)))
          ''/channels'' ''GET''
          (map_of [(''X-RateLimit-Bucket'', ''b1''), (''X-RateLimit-Remaining'', ''0''),
                 (''X-RateLimit-Reset'', ''3.0''), (''X-RateLimit-Reset-After'', ''2.0'')]) (Fin 1))) ''b1''
     = Some \<lparr>limit = 5, remaining = 3, reset = Fin 2, reset_after = Fin 2, time_cached = Fin 0\<rparr>"
proof -
  have a: "(map_of [(''X-RateLimit-Bucket'', ''b1''), (''X-RateLimit-Remaining'', ''0''),
                 (''X-RateLimit-Reset'', ''3.0''), (''X-RateLimit-Reset-After'', ''2.0'')]) ''X-RateLimit-Bucket'' = Some ''b1''" by code_simp
  have b: "buckets (snd (save_response_bucket (RateLimiter_init :: string RateLimiter) ''/channels'' ''GET''
        (ratelimit_headers ''b1'' ''5'' ''3'' ''2.0'' ''2.0'') (Fin 0))) ''b1''
     = Some \<lparr>limit = 5, remaining = 3, reset = Fin 2, reset_after = Fin 2, time_cached = Fin 0\<rparr>" by code_simp
  have c: "fst (save_response_bucket (snd (save_response_bucket (RateLimiter_init :: string RateLimiter) ''/channels'' ''GET''
        (ratelimit_headers ''b1'' ''5'' ''3'' ''2.0'' ''2.0'') (Fin 0)))
          ''/channels'' ''GET''
          (map_of [(''X-RateLimit-Bucket'', ''b1''), (''X-RateLimit-Remaining'', ''0''),
                 (''X-RateLimit-Reset'', ''3.0''), (''X-RateLimit-Reset-After'', ''2.0'')]) (Fin 1))
     = Inl (KeyError ''X-RateLimit-Limit'')" by code_simp
  have d: "buckets (snd (save_response_bucket (snd (save_response_bucket (RateLimiter_init :: string RateLimiter) ''/channels'' ''GET''
        (ratelimit_headers ''b1'' ''5'' ''3'' ''2.0'' ''2.0'') (Fin 0)))
          ''/channels'' ''GET''
          (map_of [(''X-RateLimit-Bucket'', ''b1''), (''X-RateLimit-Remaining'', ''0''),
                 (''X-RateLimit-Reset'', ''3.0''), (''X-RateLimit-Reset-After'', ''2.0'')]) (Fin 1))) ''b1''
     = Some \<lparr>limit = 5, remaining = 3, reset = Fin 2, reset_after = Fin 2, time_cached = Fin 0\<rparr>" by code_simp
  from a b c d show ?thesis by blast
qed




text \<open>
  C2 (as amended).  The rate limiter keeps no global lockout.  A response observed on
  one route, whatever its headers, changes nothing for a different route unless it
  carries the bucket id that route is mapped to: \<open>wait_until_not_ratelimited\<close> on such
  a route does exactly what it did before, and returns without awaiting anything when
  the route has no bucket.
\<close>

theorem observation_leaves_unrelated_routes_alone:
  assumes "(e2, m2) \<noteq> (e1, m1)"
    and "header ''X-RateLimit-Bucket'' = None \<or>
         header ''X-RateLimit-Bucket'' \<noteq> bucket_map self (e2, m2)"
  shows "wait_until_not_ratelimited
           (snd (save_response_bucket self e1 m1 header now)) e2 m2 cur_time
         = wait_until_not_ratelimited self e2 m2 cur_time \<and>
         (bucket_map self (e2, m2) = None \<longrightarrow>
            wait_until_not_ratelimited
              (snd (save_response_bucket self e1 m1 header now)) e2 m2 cur_time
            = Inr Returned)"
proof (cases "header ''X-RateLimit-Bucket''")
  case None
  then show ?thesis by (simp add: save_no_id wait_until_not_ratelimited_def)
next
  case (Some bucket_id)
  show ?thesis
  proof (cases "bucket_id = []")
    case True
    with Some show ?thesis
      by (simp add: save_response_bucket_def wait_until_not_ratelimited_def)
  next
    case False
    with Some assms show ?thesis
      by (auto simp: save_with_id wait_until_not_ratelimited_def
               split: sum.splits option.splits)
  qed
qed

theorem observation_leaves_unrelated_routes_alone_witness:
  "(''/users'', ''GET'') \<noteq> (''/channels'', ''POST'') \<and>
   ((map_of [(''Retry-After'', ''1.0''), (''X-RateLimit-Global'', ''true'')]) ''X-RateLimit-Bucket'' = None \<or>
    (map_of [(''Retry-After'', ''1.0''), (''X-RateLimit-Global'', ''true'')]) ''X-RateLimit-Bucket''
      \<noteq> bucket_map (RateLimiter_init :: string RateLimiter) (''/users'', ''GET'')) \<and>
   wait_until_not_ratelimited (snd (save_response_bucket (RateLimiter_init :: string RateLimiter) ''/channels'' ''POST''
        (map_of [(''Retry-After'', ''1.0''), (''X-RateLimit-Global'', ''true'')]) (Fin 0))) ''/users'' ''GET'' (Fin (1/5))
     = wait_until_not_ratelimited (RateLimiter_init :: string RateLimiter)
         ''/users'' ''GET'' (Fin (1/5)) \<and>
   bucket_map (RateLimiter_init :: string RateLimiter) (''/users'', ''GET'') = None \<and>
   wait_until_not_ratelimited (snd (save_response_bucket (RateLimiter_init :: string RateLimiter) ''/channels'' ''POST''
        (map_of [(''Retry-After'', ''1.0''), (''X-RateLimit-Global'', ''true'')]) (Fin 0))) ''/users'' ''GET'' (Fin (1/5)) = Inr Returned"
proof -
  have a: "(''/users'', ''GET'') \<noteq> (''/channels'', ''POST'')" by simp
  have n: "(map_of [(''Retry-After'', ''1.0''), (''X-RateLimit-Global'', ''true'')]) ''X-RateLimit-Bucket'' = None" by code_simp
  then have b: "(map_of [(''Retry-After'', ''1.0''), (''X-RateLimit-Global'', ''true'')]) ''X-RateLimit-Bucket'' = None \<or>
    (map_of [(''Retry-After'', ''1.0''), (''X-RateLimit-Global'', ''true'')]) ''X-RateLimit-Bucket''
      \<noteq> bucket_map (RateLimiter_init :: string RateLimiter) (''/users'', ''GET'')" by simp
  have c: "bucket_map (RateLimiter_init :: string RateLimiter) (''/users'', ''GET'') = None"
    by (simp add: RateLimiter_init_def)
  from observation_leaves_unrelated_routes_alone
      [of "''/users''" "''GET''" "''/channels''" "''POST''" "map_of [(''Retry-After'', ''1.0''), (''X-RateLimit-Global'', ''true'')]"
          "RateLimiter_init :: string RateLimiter" "Fin 0" "Fin (1/5)", OF a b] a b c
  show ?thesis by blast
qed

text \<open>
  C2 as stated fails (scenario B): after a response with \<open>Retry-After: 1.0\<close> and a
  global flag is observed at time 0, \<open>wait_until_not_ratelimited\<close> at time 0.2 returns
  without awaiting anything, both for a route with no bucket and for a route whose
  bucket has \<open>remaining = 3\<close>.
\<close>

theorem no_global_lockout:
  "wait_until_not_ratelimited (snd (save_response_bucket (RateLimiter_init :: string RateLimiter) ''/channels'' ''POST''
        (map_of [(''Retry-After'', ''1.0''), (''X-RateLimit-Global'', ''true'')]) (Fin 0))) ''/users'' ''GET'' (Fin (1/5)) = Inr Returned \<and>
   wait_until_not_ratelimited
     (snd (save_response_bucket (snd (save_response_bucket (RateLimiter_init :: string RateLimiter) ''/channels'' ''GET''
        (ratelimit_headers ''b1'' ''5'' ''3'' ''2.0'' ''2.0'') (Fin 0)))
        ''/channels'' ''POST'' (map_of [(''Retry-After'', ''1.0''), (''X-RateLimit-Global'', ''true'')]) (Fin 0)))
     ''/channels'' ''GET'' (Fin (1/5)) = Inr Returned"
proof -
  have a: "wait_until_not_ratelimited (snd (save_response_bucket (RateLimiter_init :: string RateLimiter) ''/channels'' ''POST''
        (map_of [(''Retry-After'', ''1.0''), (''X-RateLimit-Global'', ''true'')]) (Fin 0))) ''/users'' ''GET'' (Fin (1/5)) = Inr Returned"
    by code_simp
  have b: "wait_until_not_ratelimited
     (snd (save_response_bucket (snd (save_response_bucket (RateLimiter_init :: string RateLimiter) ''/channels'' ''GET''
        (ratelimit_headers ''b1'' ''5'' ''3'' ''2.0'' ''2.0'') (Fin 0)))
        ''/channels'' ''POST'' (map_of [(''Retry-After'', ''1.0''), (''X-RateLimit-Global'', ''true'')]) (Fin 0)))
     ''/channels'' ''GET'' (Fin (1/5)) = Inr Returned" by code_simp
  from a b show ?thesis by blast
qed

text \<open>
  C1 fails on the code (scenario A): the bucket is cached at time 0 with
  \<open>reset_after = 2\<close> and \<open>remaining = 0\<close>; at time 0.5 the code awaits
  \<open>sleep(0.5 - 0 + 2) = sleep(2.5)\<close>, a suspension of 2.5 seconds, where the stated wait
  \<open>max(0, 0 + 2 - 0.5)\<close> is 1.5 seconds.
\<close>

theorem scenario_A_sleep_time:
  "buckets (snd (save_response_bucket (RateLimiter_init :: string RateLimiter) ''/channels'' ''GET''
        (ratelimit_headers ''b1'' ''5'' ''0'' ''2.0'' ''2.0'') (Fin 0))) ''b1''
     = Some \<lparr>limit = 5, remaining = 0, reset = Fin 2, reset_after = Fin 2,
              time_cached = Fin 0\<rparr> \<and>
   wait_until_not_ratelimited (snd (save_response_bucket (RateLimiter_init :: string RateLimiter) ''/channels'' ''GET''
        (ratelimit_headers ''b1'' ''5'' ''0'' ''2.0'' ''2.0'') (Fin 0))) ''/channels'' ''GET'' (Fin (1/2))
     = Inr (Slept (Fin (5/2))) \<and>
   suspended_for (Slept (Fin (5/2))) = Some (5/2) \<and>
   claimed_wait 0 2 (1/2) = 3/2"
proof -
  have a: "buckets (snd (save_response_bucket (RateLimiter_init :: string RateLimiter) ''/channels'' ''GET''
        (ratelimit_headers ''b1'' ''5'' ''0'' ''2.0'' ''2.0'') (Fin 0))) ''b1''
     = Some \<lparr>limit = 5, remaining = 0, reset = Fin 2, reset_after = Fin 2,
              time_cached = Fin 0\<rparr>" by code_simp
  have b: "wait_until_not_ratelimited (snd (save_response_bucket (RateLimiter_init :: string RateLimiter) ''/channels'' ''GET''
        (ratelimit_headers ''b1'' ''5'' ''0'' ''2.0'' ''2.0'') (Fin 0))) ''/channels'' ''GET'' (Fin (1/2))
     = Inr (Slept (Fin (5/2)))" by code_simp
  have c: "suspended_for (Slept (Fin (5/2))) = Some (5/2)"
    by (simp add: suspended_for_def)
  have d: "claimed_wait 0 2 (1/2) = 3/2" by (simp add: claimed_wait_def)
  from a b c d show ?thesis by blast
qed

text \<open>
  C10 fails on the code: a response that carries a bucket id but no
  \<open>X-RateLimit-Limit\<close> makes \<open>save_response_bucket\<close> raise after the route has been
  mapped and before any bucket is stored; the mapped id is then no key of \<open>buckets\<close>,
  and the next \<open>wait_until_not_ratelimited\<close> on the route raises \<open>KeyError\<close>.
\<close>

theorem mapping_without_record:
  "fst (save_response_bucket (RateLimiter_init :: string RateLimiter) ''/channels'' ''GET''
        [''X-RateLimit-Bucket'' \<mapsto> ''b1''] (Fin 0))
     = Inl (KeyError ''X-RateLimit-Limit'') \<and>
   bucket_map (snd (save_response_bucket (RateLimiter_init :: string RateLimiter) ''/channels'' ''GET''
        [''X-RateLimit-Bucket'' \<mapsto> ''b1''] (Fin 0))) (''/channels'', ''GET'') = Some ''b1'' \<and>
   buckets (snd (save_response_bucket (RateLimiter_init :: string RateLimiter) ''/channels'' ''GET''
        [''X-RateLimit-Bucket'' \<mapsto> ''b1''] (Fin 0))) ''b1'' = None \<and>
   wait_until_not_ratelimited (snd (save_response_bucket (RateLimiter_init :: string RateLimiter) ''/channels'' ''GET''
        [''X-RateLimit-Bucket'' \<mapsto> ''b1''] (Fin 0))) ''/channels'' ''GET'' (Fin 1) = Inl (KeyError ''b1'')"
proof -
  have a: "fst (save_response_bucket (RateLimiter_init :: string RateLimiter) ''/channels'' ''GET''
        [''X-RateLimit-Bucket'' \<mapsto> ''b1''] (Fin 0))
     = Inl (KeyError ''X-RateLimit-Limit'')"
    by (simp add: save_response_bucket_def new_Bucket_def int_item_def)
  have s: "(snd (save_response_bucket (RateLimiter_init :: string RateLimiter) ''/channels'' ''GET''
        [''X-RateLimit-Bucket'' \<mapsto> ''b1''] (Fin 0))) = \<lparr>bucket_map = [(''/channels'', ''GET'') \<mapsto> ''b1''], buckets = Map.empty\<rparr>"
    by (simp add: save_response_bucket_def new_Bucket_def int_item_def RateLimiter_init_def)
  have b: "bucket_map (snd (save_response_bucket (RateLimiter_init :: string RateLimiter) ''/channels'' ''GET''
        [''X-RateLimit-Bucket'' \<mapsto> ''b1''] (Fin 0))) (''/channels'', ''GET'') = Some ''b1''" by (simp add: s)
  have c: "buckets (snd (save_response_bucket (RateLimiter_init :: string RateLimiter) ''/channels'' ''GET''
        [''X-RateLimit-Bucket'' \<mapsto> ''b1''] (Fin 0))) ''b1'' = None" by (simp add: s)
  have d: "wait_until_not_ratelimited (snd (save_response_bucket (RateLimiter_init :: string RateLimiter) ''/channels'' ''GET''
        [''X-RateLimit-Bucket'' \<mapsto> ''b1''] (Fin 0))) ''/channels'' ''GET'' (Fin 1) = Inl (KeyError ''b1'')"
    by (simp add: s wait_until_not_ratelimited_def)
  from a b c d show ?thesis by blast
qed

section \<open>Properties of the HTTP client\<close>




end
